theory Spec2Isabelle
  imports Complex_Main
begin

section \<open>The PR scoring engine (\<^verbatim>\<open>src/mvp/ai-engine/scoring-engine.js\<close>)\<close>

text \<open>
  A shallow embedding of the class \<^verbatim>\<open>ScoringEngine\<close>. Conventions:

  \<^item> A JavaScript number is a \<open>jsnum\<close>: \<^verbatim>\<open>NaN\<close>, an infinity, or \<open>Finite x\<close>
    where \<open>x\<close> is the exact rational value of a double. Products, sums and quotients
    round to the nearest double, a tie going to the even mantissa, and overflow to an
    infinity (IEEE 754 binary64). The sign of a zero is not kept: no operation of the
    engine tells the two zeros apart.
  \<^item> The sub-scores are rationals: every constant the heuristics add (5.0, 1.5, 1.0, 2.0)
    is a dyadic rational and every intermediate value is a multiple of 0.5 below 16, so
    their sums are exact in doubles; the clarity score of the model is a double clamped
    to [1,10].
  \<^item> Title, description and file names are lists of characters; \<^verbatim>\<open>length\<close> counts
    them, and case conversion is the ASCII one. The text of the model's clarity reply is
    a list of UTF-16 code units.
  \<^item> An optional property (\<^verbatim>\<open>undefined\<close> or \<^verbatim>\<open>null\<close>) is \<open>None\<close>.
  \<^item> A \<^verbatim>\<open>throw\<close> is the left injection of a sum.
  \<^item> The language-model client is outside the program: the outcome of each of its two
    calls is an argument, over which the theorems quantify.
\<close>

subsection \<open>Strings\<close>

definition lowerChar :: "char \<Rightarrow> char" where
  "lowerChar c =
     (case map_of (zip ''ABCDEFGHIJKLMNOPQRSTUVWXYZ'' ''abcdefghijklmnopqrstuvwxyz'') c of
        None \<Rightarrow> c
      | Some l \<Rightarrow> l)"

definition toLowerCase :: "string \<Rightarrow> string" where
  "toLowerCase s = map lowerChar s"

definition startsWith :: "string \<Rightarrow> string \<Rightarrow> bool" where
  "startsWith s p = (take (length p) s = p)"

definition endsWith :: "string \<Rightarrow> string \<Rightarrow> bool" where
  "endsWith s p = (length p \<le> length s \<and> drop (length s - length p) s = p)"

text \<open>\<^verbatim>\<open>s.includes(k)\<close>: \<open>k\<close> occurs in \<open>s\<close> as a contiguous substring.\<close>

fun includes_str :: "string \<Rightarrow> string \<Rightarrow> bool" where
  "includes_str [] k = (k = [])"
| "includes_str (c # cs) k = (startsWith (c # cs) k \<or> includes_str cs k)"

subsection \<open>Numbers\<close>

datatype jsnum = NaN | NegInfinity | Finite rat | PosInfinity

definition pow2 :: "int \<Rightarrow> rat" where
  "pow2 e = 2 powi e"

text \<open>The nearest integer, a tie going to the even one.\<close>

definition roundHalfEven :: "rat \<Rightarrow> int" where
  "roundHalfEven x =
     (let f = \<lfloor>x\<rfloor>; d = x - of_int f
      in if d < 1 / 2 then f else if 1 / 2 < d then f + 1 else if even f then f else f + 1)"

text \<open>
  The binary exponent of a non-negative \<open>a\<close> below \<open>2^1024\<close>: the \<open>e\<close> with
  \<open>2^e \<le> a < 2^(e+1)\<close>, and \<open>-1022\<close> for the subnormal range.
\<close>

definition binaryExponent :: "rat \<Rightarrow> int" where
  "binaryExponent a = Max (insert (- 1022) {e \<in> {- 1022 .. 1023}. pow2 e \<le> a})"

text \<open>
  The double nearest to a rational: the mantissa has 53 bits (the unit in the last place
  is \<open>2^(e-52)\<close>), and a result of \<open>2^1024\<close> or more is an infinity.
\<close>

definition toDouble :: "rat \<Rightarrow> jsnum" where
  "toDouble x =
     (let a = \<bar>x\<bar>;
          q = binaryExponent a - 52;
          y = of_int (roundHalfEven (a / pow2 q)) * pow2 q
      in if pow2 1024 \<le> a \<or> pow2 1024 \<le> y then (if x < 0 then NegInfinity else PosInfinity)
         else Finite (if x < 0 then - y else y))"

fun js_neg :: "jsnum \<Rightarrow> jsnum" where
  "js_neg NaN = NaN"
| "js_neg NegInfinity = PosInfinity"
| "js_neg (Finite x) = Finite (- x)"
| "js_neg PosInfinity = NegInfinity"

text \<open>The infinity with the sign of \<open>x\<close>, and \<^verbatim>\<open>NaN\<close> for zero times infinity.\<close>

definition signedInfinity :: "rat \<Rightarrow> jsnum" where
  "signedInfinity x = (if x = 0 then NaN else if 0 < x then PosInfinity else NegInfinity)"

fun js_mul :: "jsnum \<Rightarrow> jsnum \<Rightarrow> jsnum" where
  "js_mul NaN y = NaN"
| "js_mul x NaN = NaN"
| "js_mul (Finite a) (Finite b) = toDouble (a * b)"
| "js_mul (Finite a) PosInfinity = signedInfinity a"
| "js_mul (Finite a) NegInfinity = signedInfinity (- a)"
| "js_mul PosInfinity (Finite b) = signedInfinity b"
| "js_mul NegInfinity (Finite b) = signedInfinity (- b)"
| "js_mul PosInfinity PosInfinity = PosInfinity"
| "js_mul PosInfinity NegInfinity = NegInfinity"
| "js_mul NegInfinity PosInfinity = NegInfinity"
| "js_mul NegInfinity NegInfinity = PosInfinity"

fun js_add :: "jsnum \<Rightarrow> jsnum \<Rightarrow> jsnum" where
  "js_add NaN y = NaN"
| "js_add x NaN = NaN"
| "js_add (Finite a) (Finite b) = toDouble (a + b)"
| "js_add (Finite a) PosInfinity = PosInfinity"
| "js_add (Finite a) NegInfinity = NegInfinity"
| "js_add PosInfinity (Finite b) = PosInfinity"
| "js_add NegInfinity (Finite b) = NegInfinity"
| "js_add PosInfinity PosInfinity = PosInfinity"
| "js_add PosInfinity NegInfinity = NaN"
| "js_add NegInfinity PosInfinity = NaN"
| "js_add NegInfinity NegInfinity = NegInfinity"

text \<open>\<^verbatim>\<open>x / 10\<close>\<close>

fun js_div10 :: "jsnum \<Rightarrow> jsnum" where
  "js_div10 (Finite a) = toDouble (a / 10)"
| "js_div10 x = x"

text \<open>\<^verbatim>\<open>x >= y\<close> and \<^verbatim>\<open>x < y\<close>: false when either side is \<^verbatim>\<open>NaN\<close>.\<close>

fun js_ge :: "jsnum \<Rightarrow> jsnum \<Rightarrow> bool" where
  "js_ge NaN y = False"
| "js_ge x NaN = False"
| "js_ge PosInfinity y = True"
| "js_ge x NegInfinity = True"
| "js_ge (Finite a) (Finite b) = (b \<le> a)"
| "js_ge (Finite a) PosInfinity = False"
| "js_ge NegInfinity y = False"

fun js_lt :: "jsnum \<Rightarrow> jsnum \<Rightarrow> bool" where
  "js_lt NaN y = False"
| "js_lt x NaN = False"
| "js_lt (Finite a) (Finite b) = (a < b)"
| "js_lt (Finite a) PosInfinity = True"
| "js_lt NegInfinity (Finite b) = True"
| "js_lt NegInfinity PosInfinity = True"
| "js_lt x y = False"

text \<open>
  \<^verbatim>\<open>Math.round\<close>: the nearest integer, a tie going up. The result is exact: a double
  of magnitude \<open>2^52\<close> or more is an integer already.
\<close>

fun Math_round :: "jsnum \<Rightarrow> jsnum" where
  "Math_round (Finite x) = Finite (of_int \<lfloor>x + 1 / 2\<rfloor>)"
| "Math_round x = x"

subsection \<open>\<^verbatim>\<open>trim\<close> and \<^verbatim>\<open>parseFloat\<close>\<close>

text \<open>
  The text of a reply is a list of UTF-16 code units; \<open>codeUnits\<close> gives the code units
  of a text whose characters are all below 256.
\<close>

type_synonym codeunit = nat

definition codeUnits :: "string \<Rightarrow> codeunit list" where
  "codeUnits s = map of_char s"

text \<open>
  White space and line terminators of ECMAScript: tab, line feed, vertical tab, form
  feed, carriage return, space, U+00A0, U+1680, U+2000 to U+200A, U+2028, U+2029,
  U+202F, U+205F, U+3000 and U+FEFF. \<^verbatim>\<open>trim\<close> removes them at both ends.
\<close>

definition isWhiteSpace :: "codeunit \<Rightarrow> bool" where
  "isWhiteSpace c =
     (c \<in> {9, 10, 11, 12, 13, 32, 160, 5760, 8232, 8233, 8239, 8287, 12288, 65279} \<or>
      (8192 \<le> c \<and> c \<le> 8202))"

definition trim :: "codeunit list \<Rightarrow> codeunit list" where
  "trim s = rev (dropWhile isWhiteSpace (rev (dropWhile isWhiteSpace s)))"

text \<open>
  The built-in \<^verbatim>\<open>parseFloat\<close> (ECMAScript, \<^verbatim>\<open>StrDecimalLiteral\<close>): leading white
  space is skipped, then the longest prefix of the form sign, \<^verbatim>\<open>Infinity\<close> or digits
  with an optional fraction and an optional exponent is read and rounded to the nearest
  double; when there is no such prefix the result is \<^verbatim>\<open>NaN\<close>.
\<close>

definition isDigit :: "codeunit \<Rightarrow> bool" where
  "isDigit c = (48 \<le> c \<and> c \<le> 57)"

definition decimalValue :: "codeunit list \<Rightarrow> int" where
  "decimalValue ds = foldl (\<lambda>acc c. 10 * acc + (int c - 48)) 0 ds"

definition pow10 :: "int \<Rightarrow> rat" where
  "pow10 e = (if 0 \<le> e then 10 ^ nat e else 1 / 10 ^ nat (- e))"

definition exponentPart :: "codeunit list \<Rightarrow> int" where
  "exponentPart s =
     (case s of
        [] \<Rightarrow> 0
      | c # r \<Rightarrow>
          if c = of_char CHR ''e'' \<or> c = of_char CHR ''E'' then
            (let (neg, r1) =
                   (case r of
                      [] \<Rightarrow> (False, r)
                    | d # r' \<Rightarrow>
                        if d = of_char CHR ''-'' then (True, r')
                        else if d = of_char CHR ''+'' then (False, r')
                        else (False, r));
                 ds = takeWhile isDigit r1
             in if ds = [] then 0
                else if neg then - decimalValue ds else decimalValue ds)
          else 0)"

definition parseFloat :: "codeunit list \<Rightarrow> jsnum" where
  "parseFloat input =
     (let s = dropWhile isWhiteSpace input;
          (neg, s1) =
            (case s of
               [] \<Rightarrow> (False, s)
             | c # r \<Rightarrow>
                 if c = of_char CHR ''-'' then (True, r)
                 else if c = of_char CHR ''+'' then (False, r)
                 else (False, s))
      in if take 8 s1 = codeUnits ''Infinity'' then (if neg then NegInfinity else PosInfinity)
         else
           (let ip = takeWhile isDigit s1;
                r1 = dropWhile isDigit s1;
                (fp, r2) =
                  (case r1 of
                     [] \<Rightarrow> ([], r1)
                   | c # r \<Rightarrow>
                       if c = of_char CHR ''.'' then (takeWhile isDigit r, dropWhile isDigit r)
                       else ([], r1))
            in if ip = [] \<and> fp = [] then NaN
               else
                 (let mant = of_int (decimalValue (ip @ fp)) / 10 ^ length fp;
                      v = toDouble (mant * pow10 (exponentPart r2))
                  in if neg then js_neg v else v)))"

subsection \<open>Data\<close>

record file_change =
  filename :: string
  status :: string

record jira_context =
  ticketId :: "string option"
  ticketStatus :: "string option"
  ticketType :: "string option"
  priority :: "string option"

record pr_data =
  prId :: string
  title :: string
  description :: "string option"
  files :: "file_change list option"
  tests :: "string list option"
  jiraContext :: "jira_context option"

text \<open>
  \<^verbatim>\<open>config.scoring.weights\<close> and \<^verbatim>\<open>config.scoring.thresholds\<close>, read by the
  constructor: the numbers that loading \<^verbatim>\<open>config.json\<close> gives, a decimal literal
  \<open>d\<close> of the file being the number \<open>toDouble d\<close>.
\<close>

record weights =
  w_clarity :: jsnum
  w_context :: jsnum
  w_completeness :: jsnum
  w_jiraLink :: jsnum

record thresholds =
  excellent :: jsnum
  good :: jsnum
  needsImprovement :: jsnum

record scoring_engine =
  weights :: weights
  thresholds :: thresholds

datatype rating = Poor | NeedsImprovement | Good | Excellent

record breakdown =
  b_clarity :: rat
  b_context :: rat
  b_completeness :: rat
  b_jiraLink :: rat

text \<open>Values of \<^verbatim>\<open>JSON.parse\<close>.\<close>

datatype json =
  JNull | JBool bool | JNum rat | JStr string | JArr "json list" | JObj "(string \<times> json) list"

record scoring_result =
  totalScore :: jsnum
  breakdown :: breakdown
  rating :: rating
  suggestions :: "json list"
  timestamp :: string

datatype js_error = ReferenceError string | Error string

text \<open>
  What a \<^verbatim>\<open>try\<close> block gets from the client. For the clarity call, \<open>Returns c\<close> is the
  text \<^verbatim>\<open>response.choices[0].message.content\<close>; \<open>Throws\<close> is a rejected call or a
  response without that shape. For the suggestion call, \<open>Returns j\<close> is the value
  \<^verbatim>\<open>JSON.parse\<close> gives for that text, and \<open>Throws\<close> also stands for its
  \<^verbatim>\<open>SyntaxError\<close>.
\<close>

datatype 'a outcome = Throws | Returns 'a

record model_client =
  clarityCompletion :: "codeunit list outcome"
  suggestionCompletion :: "json outcome"

text \<open>Truthiness of an optional string: \<^verbatim>\<open>undefined\<close> and \<^verbatim>\<open>""\<close> are falsy.\<close>

definition truthy :: "string option \<Rightarrow> bool" where
  "truthy s = (case s of None \<Rightarrow> False | Some t \<Rightarrow> t \<noteq> [])"

definition strlen :: "string option \<Rightarrow> nat" where
  "strlen s = (case s of None \<Rightarrow> 0 | Some t \<Rightarrow> length t)"

subsection \<open>The heuristic evaluators\<close>

definition conventionalPrefixes :: "string list" where
  "conventionalPrefixes =
     [''feat'', ''fix'', ''docs'', ''style'', ''refactor'', ''test'', ''chore'']"

text \<open>\<^verbatim>\<open>/^(feat|fix|docs|style|refactor|test|chore):/i.test(title)\<close>\<close>

definition conventionalTitle :: "string \<Rightarrow> bool" where
  "conventionalTitle t =
     list_ex (\<lambda>p. startsWith (toLowerCase t) (p @ '':'')) conventionalPrefixes"

definition fallbackClarityScore :: "string \<Rightarrow> string option \<Rightarrow> rat" where
  "fallbackClarityScore t d =
     (let score = 5;
          score = (if t \<noteq> [] \<and> length t > 10 \<and> length t < 100 then score + 2 else score);
          score = (if truthy d \<and> strlen d > 50 then score + 2 else score);
          score = (if t \<noteq> [] \<and> conventionalTitle t then score + 1 else score)
      in max 1 (min 10 score))"

definition analyzeClarityScore ::
  "codeunit list outcome \<Rightarrow> string \<Rightarrow> string option \<Rightarrow> rat" where
  "analyzeClarityScore reply t d =
     (case reply of
        Throws \<Rightarrow> fallbackClarityScore t d
      | Returns content \<Rightarrow>
          (case parseFloat (trim content) of
             NaN \<Rightarrow> 5
           | Finite score \<Rightarrow> max 1 (min 10 score)
           | PosInfinity \<Rightarrow> 10
           | NegInfinity \<Rightarrow> 1))"

definition contextKeywords :: "string list" where
  "contextKeywords = [''because'', ''fixes'', ''addresses'', ''implements'', ''refactor'']"

definition analyzeContextScore :: "string option \<Rightarrow> file_change list option \<Rightarrow> rat" where
  "analyzeContextScore d fs =
     (let score = 5;
          score = (if truthy d \<and> strlen d > 100 then score + 3 / 2 else score);
          score = (if truthy d \<and> strlen d > 300 then score + 1 else score);
          hasContext =
            list_ex
              (\<lambda>keyword. case d of None \<Rightarrow> False | Some t \<Rightarrow> includes_str (toLowerCase t) keyword)
              contextKeywords;
          score = (if hasContext then score + 3 / 2 else score);
          score =
            (case fs of
               None \<Rightarrow> score
             | Some l \<Rightarrow>
                 if length l > 0 then
                   (let score = (if length l \<le> 5 then score + 1 else score);
                        score = (if length l > 10 then score - 1 else score)
                    in score)
                 else score)
      in max 1 (min 10 score))"

definition isDocFile :: "file_change \<Rightarrow> bool" where
  "isDocFile f =
     (includes_str (toLowerCase (filename f)) ''readme'' \<or> includes_str (toLowerCase (filename f)) ''.md'')"

definition analyzeCompletenessScore :: "pr_data \<Rightarrow> rat" where
  "analyzeCompletenessScore prData =
     (let score = 5;
          score = (if title prData \<noteq> [] \<and> length (title prData) > 10 then score + 1 else score);
          score =
            (if truthy (description prData) \<and> strlen (description prData) > 50 then score + 1
             else score);
          score =
            (case files prData of
               None \<Rightarrow> score
             | Some l \<Rightarrow> if length l > 0 then score + 1 else score);
          score =
            (case tests prData of
               None \<Rightarrow> score
             | Some l \<Rightarrow> if length l > 0 then score + 2 else score);
          hasDocUpdates = (case files prData of None \<Rightarrow> False | Some l \<Rightarrow> list_ex isDocFile l);
          score = (if hasDocUpdates then score + 1 else score)
      in max 1 (min 10 score))"

definition analyzeJiraLinkScore :: "jira_context option \<Rightarrow> rat" where
  "analyzeJiraLinkScore jc =
     (case jc of
        None \<Rightarrow> 0
      | Some j \<Rightarrow>
          (let score = 5;
               score = (if truthy (ticketId j) then score + 2 else score);
               score = (if ticketStatus j = Some ''In Progress'' then score + 1 else score);
               score = (if truthy (ticketType j) then score + 1 else score);
               score = (if truthy (priority j) then score + 1 else score)
           in max 0 (min 10 score)))"

subsection \<open>Rating and suggestions\<close>

definition getRating :: "scoring_engine \<Rightarrow> jsnum \<Rightarrow> rating" where
  "getRating eng score =
     (if js_ge score (excellent (thresholds eng)) then Excellent
      else if js_ge score (good (thresholds eng)) then Good
      else if js_ge score (needsImprovement (thresholds eng)) then NeedsImprovement
      else Poor)"

definition fallbackTable :: "(string \<times> string) list" where
  "fallbackTable =
     [(''clarity'', ''Consider adding more descriptive title and detailed description''),
      (''context'', ''Provide more context about why this change is needed''),
      (''completeness'', ''Add tests and update documentation if needed''),
      (''jiraLink'', ''Link this PR to the relevant Jira ticket'')]"

text \<open>\<^verbatim>\<open>lowScoreAreas.map((area) => suggestions[area]).filter(Boolean)\<close>\<close>

definition getFallbackSuggestions :: "string list \<Rightarrow> string list" where
  "getFallbackSuggestions lowScoreAreas =
     List.map_filter
       (\<lambda>area. case map_of fallbackTable area of
                 None \<Rightarrow> None
               | Some s \<Rightarrow> if s = [] then None else Some s)
       lowScoreAreas"

text \<open>\<^verbatim>\<open>Object.entries(scores).filter(([_, score]) => score < 7).map(([area, _]) => area)\<close>\<close>

definition lowScoreAreasOf :: "(string \<times> rat) list \<Rightarrow> string list" where
  "lowScoreAreasOf scores = map fst (filter (\<lambda>(_, score). score < 7) scores)"

definition affirmation :: string where
  "affirmation = ''Great job! This PR meets all quality standards.''"

text \<open>
  \<^verbatim>\<open>generateSuggestions\<close>. The constant \<^verbatim>\<open>lowScoreAreas\<close> is declared inside the
  \<^verbatim>\<open>try\<close> block, so the \<^verbatim>\<open>catch\<close> block, which names it, is outside its scope:
  evaluating the handler's \<^verbatim>\<open>return\<close> raises a \<^verbatim>\<open>ReferenceError\<close>.
\<close>

definition generateSuggestions ::
  "json outcome \<Rightarrow> pr_data \<Rightarrow> (string \<times> rat) list \<Rightarrow> js_error + json list" where
  "generateSuggestions reply prData scores =
     (let lowScoreAreas = lowScoreAreasOf scores
      in if length lowScoreAreas = 0 then Inr [JStr affirmation]
         else
           (case reply of
              Returns parsed \<Rightarrow>
                (case parsed of
                   JArr xs \<Rightarrow> Inr xs
                 | _ \<Rightarrow> Inr (map JStr (getFallbackSuggestions lowScoreAreas)))
            | Throws \<Rightarrow> Inl (ReferenceError ''lowScoreAreas is not defined'')))"

subsection \<open>The composite scorer\<close>

text \<open>The object literal passed to \<^verbatim>\<open>generateSuggestions\<close>, as \<^verbatim>\<open>Object.entries\<close> lists it.\<close>

definition scoreEntries :: "rat \<Rightarrow> rat \<Rightarrow> rat \<Rightarrow> rat \<Rightarrow> (string \<times> rat) list" where
  "scoreEntries c x m j =
     [(''clarity'', c), (''context'', x), (''completeness'', m), (''jiraLink'', j)]"

text \<open>\<open>now\<close> is \<^verbatim>\<open>new Date().toISOString()\<close>.\<close>

definition calculateScore ::
  "scoring_engine \<Rightarrow> model_client \<Rightarrow> string \<Rightarrow> pr_data \<Rightarrow> js_error + scoring_result" where
  "calculateScore eng client now prData =
     (let clarityScore =
            analyzeClarityScore (clarityCompletion client) (title prData) (description prData);
          contextScore = analyzeContextScore (description prData) (files prData);
          completenessScore = analyzeCompletenessScore prData;
          jiraLinkScore = analyzeJiraLinkScore (jiraContext prData);
          total =
            js_add
              (js_add
                (js_add
                  (js_mul (Finite clarityScore) (w_clarity (weights eng)))
                  (js_mul (Finite contextScore) (w_context (weights eng))))
                (js_mul (Finite completenessScore) (w_completeness (weights eng))))
              (js_mul (Finite jiraLinkScore) (w_jiraLink (weights eng)))
      in case generateSuggestions (suggestionCompletion client) prData
                (scoreEntries clarityScore contextScore completenessScore jiraLinkScore) of
           Inl e \<Rightarrow> Inl (Error ''Failed to calculate PR score'')
         | Inr s \<Rightarrow>
             Inr \<lparr>totalScore = js_div10 (Math_round (js_mul total (Finite 10))),
                  breakdown =
                    \<lparr>b_clarity = clarityScore, b_context = contextScore,
                     b_completeness = completenessScore, b_jiraLink = jiraLinkScore\<rparr>,
                  rating = getRating eng total,
                  suggestions = s,
                  timestamp = now\<rparr>)"

section \<open>The specification's wording\<close>

text \<open>
  The definitions of this section follow the words of the specification, not the code;
  the theorems below compare them with the functions of the engine. An absent
  description is the empty text and an absent list is the empty list.
\<close>

definition textOf :: "string option \<Rightarrow> string" where
  "textOf d = (case d of None \<Rightarrow> [] | Some t \<Rightarrow> t)"

definition listOf :: "'a list option \<Rightarrow> 'a list" where
  "listOf l = (case l of None \<Rightarrow> [] | Some xs \<Rightarrow> xs)"

text \<open>Case-insensitive substring match: both sides are compared in lower case.\<close>

definition contains_ci :: "string \<Rightarrow> string \<Rightarrow> bool" where
  "contains_ci s k = includes_str (toLowerCase s) (toLowerCase k)"

definition bonus :: "bool \<Rightarrow> rat \<Rightarrow> rat" where
  "bonus b v = (if b then v else 0)"

definition clamp :: "rat \<Rightarrow> rat \<Rightarrow> rat \<Rightarrow> rat" where
  "clamp lo hi x = (if x < lo then lo else if hi < x then hi else x)"

text \<open>
  Context: base 5.0; +1.5 for a description longer than 100; a further +1.0 when it is
  longer than 300; +1.5 when it contains a rationale keyword, case-insensitively;
  +1.0 when between one and five files changed; -1.0 when more than ten did; clamped
  to [1,10].
\<close>

definition rationaleKeywords :: "string list" where
  "rationaleKeywords = [''because'', ''fixes'', ''addresses'', ''implements'', ''refactor'']"

definition context_spec :: "string \<Rightarrow> nat \<Rightarrow> rat" where
  "context_spec descr fileCount =
     clamp 1 10
       (5 + bonus (length descr > 100) (3 / 2)
          + bonus (length descr > 300) 1
          + bonus (list_ex (contains_ci descr) rationaleKeywords) (3 / 2)
          + bonus (0 < fileCount \<and> fileCount \<le> 5) 1
          - bonus (fileCount > 10) 1)"

text \<open>
  Completeness: base 5.0; +1.0 for a title longer than 10; +1.0 for a description longer
  than 50; +1.0 for at least one changed file; +2.0 for at least one test reference;
  +1.0 when a changed file is documentation; clamped to [1,10]. The specification
  takes a file for documentation when its name contains "readme" or ends with the
  markdown extension \<^verbatim>\<open>.md\<close>, case-insensitively (\<open>docBySuffix\<close>);
  \<open>docBySubstring\<close> asks only that the name contains the text ".md" somewhere.
\<close>

definition docBySuffix :: "string \<Rightarrow> bool" where
  "docBySuffix name = (contains_ci name ''readme'' \<or> endsWith (toLowerCase name) ''.md'')"

definition docBySubstring :: "string \<Rightarrow> bool" where
  "docBySubstring name = (contains_ci name ''readme'' \<or> contains_ci name ''.md'')"

definition completeness_with ::
  "(string \<Rightarrow> bool) \<Rightarrow> string \<Rightarrow> string \<Rightarrow> string list \<Rightarrow> nat \<Rightarrow> rat" where
  "completeness_with isDoc ttl descr names testCount =
     clamp 1 10
       (5 + bonus (length ttl > 10) 1
          + bonus (length descr > 50) 1
          + bonus (names \<noteq> []) 1
          + bonus (testCount > 0) 2
          + bonus (list_ex isDoc names) 1)"

definition completeness_spec :: "string \<Rightarrow> string \<Rightarrow> string list \<Rightarrow> nat \<Rightarrow> rat" where
  "completeness_spec = completeness_with docBySuffix"

definition completeness_amended :: "string \<Rightarrow> string \<Rightarrow> string list \<Rightarrow> nat \<Rightarrow> rat" where
  "completeness_amended = completeness_with docBySubstring"

text \<open>
  The weighted sum of a breakdown under the configured weights, the products added from
  left to right, in the arithmetic of the engine.
\<close>

definition weightedSum :: "weights \<Rightarrow> breakdown \<Rightarrow> jsnum" where
  "weightedSum w b =
     js_add
       (js_add
         (js_add (js_mul (Finite (b_clarity b)) (w_clarity w))
                 (js_mul (Finite (b_context b)) (w_context w)))
         (js_mul (Finite (b_completeness b)) (w_completeness w)))
       (js_mul (Finite (b_jiraLink b)) (w_jiraLink w))"

text \<open>
  Rounding to one decimal place, in the arithmetic of the engine: ten times the number,
  rounded to the nearest integer (a tie going up), divided by ten.
\<close>

definition round1 :: "jsnum \<Rightarrow> jsnum" where
  "round1 x = js_div10 (Math_round (js_mul x (Finite 10)))"

text \<open>The order of the bands: poor < needs-improvement < good < excellent.\<close>

fun bandRank :: "rating \<Rightarrow> nat" where
  "bandRank Poor = 0"
| "bandRank NeedsImprovement = 1"
| "bandRank Good = 2"
| "bandRank Excellent = 3"

definition thresholdsAscending :: "scoring_engine \<Rightarrow> bool" where
  "thresholdsAscending eng =
     (js_ge (good (thresholds eng)) (needsImprovement (thresholds eng)) \<and>
      js_ge (excellent (thresholds eng)) (good (thresholds eng)))"

text \<open>The fixed suggestion of a dimension whose sub-score is below the threshold 7.\<close>

definition suggestionIfWeak :: "rat \<Rightarrow> string \<Rightarrow> string list" where
  "suggestionIfWeak score suggestion = (if score < 7 then [suggestion] else [])"

definition fallback_spec :: "rat \<Rightarrow> rat \<Rightarrow> rat \<Rightarrow> rat \<Rightarrow> string list" where
  "fallback_spec c x m j =
     suggestionIfWeak c ''Consider adding more descriptive title and detailed description'' @
     suggestionIfWeak x ''Provide more context about why this change is needed'' @
     suggestionIfWeak m ''Add tests and update documentation if needed'' @
     suggestionIfWeak j ''Link this PR to the relevant Jira ticket''"

text \<open>
  A text parses as a number when, after leading white space and one optional sign, it
  begins with a digit, with a dot followed by a digit, or with \<^verbatim>\<open>Infinity\<close>. Every
  other text, the empty one included, is not numeric.
\<close>

definition stripSign :: "codeunit list \<Rightarrow> codeunit list" where
  "stripSign u =
     (case u of
        [] \<Rightarrow> []
      | c # r \<Rightarrow> if c = of_char CHR ''-'' \<or> c = of_char CHR ''+'' then r else u)"

definition numericCore :: "codeunit list \<Rightarrow> bool" where
  "numericCore v =
     (take 8 v = codeUnits ''Infinity'' \<or>
      (case v of
         [] \<Rightarrow> False
       | c # r \<Rightarrow>
           isDigit c \<or>
           (c = of_char CHR ''.'' \<and> (case r of [] \<Rightarrow> False | d # r' \<Rightarrow> isDigit d))))"

definition numericStart :: "codeunit list \<Rightarrow> bool" where
  "numericStart s = numericCore (stripSign (dropWhile isWhiteSpace s))"

section \<open>Sample inputs\<close>

text \<open>
  The repository's \<^verbatim>\<open>config.json\<close> is not among the sources, so weights and thresholds
  are arguments of the engine. The examples below use the weights 0.3, 0.25, 0.25, 0.2
  and the thresholds 8.5, 7, 5 as such a file would give them, and these requests.
\<close>

abbreviation sampleEngine :: scoring_engine where
  "sampleEngine \<equiv>
     \<lparr>weights =
        \<lparr>w_clarity = toDouble (3 / 10), w_context = toDouble (1 / 4),
         w_completeness = toDouble (1 / 4), w_jiraLink = toDouble (1 / 5)\<rparr>,
      thresholds =
        \<lparr>excellent = toDouble (17 / 2), good = toDouble 7, needsImprovement = toDouble 5\<rparr>\<rparr>"

abbreviation minimalPr :: pr_data where
  "minimalPr \<equiv>
     \<lparr>prId = ''41'', title = ''x'', description = None, files = Some [], tests = None,
      jiraContext = None\<rparr>"

abbreviation loginDescription :: string where
  "loginDescription \<equiv> ''Implements the OAuth2 login flow and the token refresh handler.''"

abbreviation loginPr :: pr_data where
  "loginPr \<equiv>
     \<lparr>prId = ''42'', title = ''feat: add OAuth2 login'', description = Some loginDescription,
      files = Some [\<lparr>filename = ''src/login.js'', status = ''added''\<rparr>,
                    \<lparr>filename = ''README.md'', status = ''modified''\<rparr>],
      tests = Some [''test/login.test.js''],
      jiraContext = Some \<lparr>ticketId = Some ''PROJ-7'', ticketStatus = Some ''In Progress'',
                            ticketType = Some ''Story'', priority = Some ''High''\<rparr>\<rparr>"

text \<open>A request with a title of 17 characters and nothing else: completeness 6.\<close>

abbreviation titledPr :: pr_data where
  "titledPr \<equiv>
     \<lparr>prId = ''44'', title = ''Update login flow'', description = None, files = Some [],
      tests = None, jiraContext = None\<rparr>"


abbreviation sampleTime :: string where
  "sampleTime \<equiv> ''2025-01-27T10:00:00.000Z''"

section \<open>Properties\<close>

subsection \<open>Substrings\<close>

text \<open>\<open>includes_str\<close> is the substring relation, and \<open>startsWith\<close> the prefix relation.\<close>

lemma startsWith_iff: "startsWith s p \<longleftrightarrow> (\<exists>ss. s = p @ ss)"
proof
  assume "startsWith s p"
  then have "s = p @ drop (length p) s"
    by (metis append_take_drop_id startsWith_def)
  then show "\<exists>ss. s = p @ ss" ..
next
  assume "\<exists>ss. s = p @ ss"
  then show "startsWith s p" by (auto simp: startsWith_def)
qed

lemma includes_str_iff: "includes_str s k \<longleftrightarrow> (\<exists>ps ss. s = ps @ k @ ss)"
proof (induction s)
  case Nil
  then show ?case by simp
next
  case (Cons c cs)
  show ?case
  proof
    assume "includes_str (c # cs) k"
    then consider "startsWith (c # cs) k" | "includes_str cs k" by auto
    then show "\<exists>ps ss. c # cs = ps @ k @ ss"
    proof cases
      case 1
      then obtain ss where "c # cs = k @ ss" using startsWith_iff by blast
      then have "c # cs = [] @ k @ ss" by simp
      then show ?thesis by blast
    next
      case 2
      then obtain ps ss where "cs = ps @ k @ ss" using Cons.IH by blast
      then have "c # cs = (c # ps) @ k @ ss" by simp
      then show ?thesis by blast
    qed
  next
    assume "\<exists>ps ss. c # cs = ps @ k @ ss"
    then obtain ps ss where eq: "c # cs = ps @ k @ ss" by blast
    show "includes_str (c # cs) k"
    proof (cases ps)
      case Nil
      with eq have "startsWith (c # cs) k" using startsWith_iff by auto
      then show ?thesis by simp
    next
      case (Cons a rest)
      with eq have "cs = rest @ k @ ss" by simp
      then have "includes_str cs k" using Cons.IH by blast
      then show ?thesis by simp
    qed
  qed
qed

subsection \<open>Ranges of the sub-scores\<close>

lemma fallbackClarityScore_range: "1 \<le> fallbackClarityScore t d \<and> fallbackClarityScore t d \<le> 10"
  by (simp add: fallbackClarityScore_def Let_def)

lemma analyzeClarityScore_range:
  "1 \<le> analyzeClarityScore reply t d \<and> analyzeClarityScore reply t d \<le> 10"
  using fallbackClarityScore_range [of t d]
  by (simp add: analyzeClarityScore_def split: outcome.split jsnum.split)

lemma analyzeContextScore_range:
  "1 \<le> analyzeContextScore d fs \<and> analyzeContextScore d fs \<le> 10"
  unfolding analyzeContextScore_def Let_def by simp

lemma analyzeCompletenessScore_range:
  "1 \<le> analyzeCompletenessScore p \<and> analyzeCompletenessScore p \<le> 10"
  unfolding analyzeCompletenessScore_def Let_def by simp

lemma analyzeJiraLinkScore_Some:
  "5 \<le> analyzeJiraLinkScore (Some j) \<and> analyzeJiraLinkScore (Some j) \<le> 10"
  by (simp add: analyzeJiraLinkScore_def Let_def)

lemma analyzeJiraLinkScore_None: "analyzeJiraLinkScore None = 0"
  by (simp add: analyzeJiraLinkScore_def)

lemma analyzeJiraLinkScore_range:
  "0 \<le> analyzeJiraLinkScore jc \<and> analyzeJiraLinkScore jc \<le> 10"
  by (cases jc) (simp_all add: analyzeJiraLinkScore_def Let_def)

lemma analyzeJiraLinkScore_zero_iff: "analyzeJiraLinkScore jc = 0 \<longleftrightarrow> jc = None"
proof (cases jc)
  case None
  then show ?thesis by (simp add: analyzeJiraLinkScore_None)
next
  case (Some j)
  with analyzeJiraLinkScore_Some [of j] show ?thesis by simp
qed

subsection \<open>Rounding to the nearest double\<close>

lemma pow2_pos: "0 < pow2 e"
  by (simp add: pow2_def)

lemma pow2_less_iff: "pow2 a < pow2 b \<longleftrightarrow> a < b"
proof
  assume less: "pow2 a < pow2 b"
  show "a < b"
  proof (rule ccontr)
    assume "\<not> a < b"
    then have "b \<le> a" by simp
    then have "pow2 b \<le> pow2 a" unfolding pow2_def by (intro power_int_increasing) simp_all
    with less show False by simp
  qed
next
  assume "a < b"
  then show "pow2 a < pow2 b" unfolding pow2_def by (intro power_int_strict_increasing) simp_all
qed

lemma pow2_le_iff: "pow2 a \<le> pow2 b \<longleftrightarrow> a \<le> b"
  using pow2_less_iff [of b a] by (simp add: not_less [symmetric])

lemma finite_exponents: "finite (insert (- 1022) {e \<in> {- 1022 .. 1023}. pow2 e \<le> a})"
proof -
  have "{e \<in> {- 1022 .. 1023}. pow2 e \<le> a} \<subseteq> {- 1022 .. 1023}" by blast
  then have "finite {e \<in> {- 1022 .. 1023}. pow2 e \<le> a}" by (rule finite_subset) simp
  then show ?thesis by (rule finite.insertI)
qed

text \<open>The exponent of a number in the binade \<open>[2^k, 2^(k+1))\<close> is \<open>k\<close>.\<close>

lemma binaryExponent_eq:
  assumes "- 1022 \<le> k" "k \<le> 1023" "pow2 k \<le> a" "a < pow2 (k + 1)"
  shows "binaryExponent a = k"
  unfolding binaryExponent_def
proof (rule Max_eqI)
  show "finite (insert (- 1022) {e \<in> {- 1022 .. 1023}. pow2 e \<le> a})"
    by (rule finite_exponents)
  show "k \<in> insert (- 1022) {e \<in> {- 1022 .. 1023}. pow2 e \<le> a}" using assms by simp
  fix e assume "e \<in> insert (- 1022) {e \<in> {- 1022 .. 1023}. pow2 e \<le> a}"
  then consider "e = - 1022" | "pow2 e \<le> a" by auto
  then show "e \<le> k"
  proof cases
    case 1 then show ?thesis using assms(1) by simp
  next
    case 2
    then have "pow2 e < pow2 (k + 1)" using assms(4) by simp
    then show ?thesis by (simp add: pow2_less_iff)
  qed
qed

lemma binaryExponent_small:
  assumes "a < pow2 (- 1022)"
  shows "binaryExponent a = - 1022"
  unfolding binaryExponent_def
proof (rule Max_eqI)
  show "finite (insert (- 1022) {e \<in> {- 1022 .. 1023}. pow2 e \<le> a})"
    by (rule finite_exponents)
  show "- 1022 \<in> insert (- 1022) {e \<in> {- 1022 .. 1023}. pow2 e \<le> a}" by simp
  fix e assume "e \<in> insert (- 1022) {e \<in> {- 1022 .. 1023}. pow2 e \<le> a}"
  then consider "e = - 1022" | "pow2 e \<le> a" by auto
  then show "e \<le> - 1022"
  proof cases
    case 1 then show ?thesis by simp
  next
    case 2
    then have "pow2 e < pow2 (- 1022)" using assms by simp
    then show ?thesis by (simp add: pow2_less_iff)
  qed
qed

lemma roundHalfEven_eq:
  assumes "\<bar>x - of_int m\<bar> < 1 / 2"
  shows "roundHalfEven x = m"
proof (cases "of_int m \<le> x")
  case True
  then have "\<lfloor>x\<rfloor> = m" using assms by (simp add: floor_eq_iff abs_less_iff)
  then show ?thesis using assms True by (simp add: roundHalfEven_def abs_less_iff)
next
  case False
  then have f: "\<lfloor>x\<rfloor> = m - 1" using assms by (simp add: floor_eq_iff abs_less_iff)
  have "1 / 2 < x - of_int (m - 1)" using assms False by (simp add: abs_less_iff)
  then show ?thesis unfolding roundHalfEven_def Let_def f by simp
qed

lemma roundHalfEven_tie:
  assumes "x = of_int f + 1 / 2"
  shows "roundHalfEven x = (if even f then f else f + 1)"
proof -
  have "\<lfloor>x\<rfloor> = f" using assms by (simp add: floor_eq_iff)
  then show ?thesis using assms by (simp add: roundHalfEven_def)
qed

text \<open>
  How a rounding is checked at a given number: name the binade \<open>k\<close> and the mantissa
  \<open>m\<close>; the premises are inequalities between numerals.
\<close>

lemma toDouble_roundI:
  assumes "- 1022 \<le> k" "k \<le> 1023" "pow2 k \<le> \<bar>x\<bar>" "\<bar>x\<bar> < pow2 (k + 1)"
    and r: "roundHalfEven (\<bar>x\<bar> / pow2 (k - 52)) = m"
    and "of_int m * pow2 (k - 52) < pow2 1024"
    and "y = (if x < 0 then - (of_int m * pow2 (k - 52)) else of_int m * pow2 (k - 52))"
  shows "toDouble x = Finite y"
proof -
  have e: "binaryExponent \<bar>x\<bar> = k" using assms(1-4) by (rule binaryExponent_eq)
  have "pow2 (k + 1) \<le> pow2 1024" using assms(2) by (simp add: pow2_le_iff)
  with assms(4) have "\<not> pow2 1024 \<le> \<bar>x\<bar>" by simp
  moreover have "\<not> pow2 1024 \<le> of_int m * pow2 (k - 52)" using assms(6) by simp
  ultimately show ?thesis
    unfolding toDouble_def Let_def e r using assms(7) by simp
qed

lemma toDouble_eqI:
  assumes "- 1022 \<le> k" "k \<le> 1023" "pow2 k \<le> \<bar>x\<bar>" "\<bar>x\<bar> < pow2 (k + 1)"
    and "\<bar>\<bar>x\<bar> / pow2 (k - 52) - of_int m\<bar> < 1 / 2"
    and "of_int m * pow2 (k - 52) < pow2 1024"
    and "y = (if x < 0 then - (of_int m * pow2 (k - 52)) else of_int m * pow2 (k - 52))"
  shows "toDouble x = Finite y"
  using assms(1-4) roundHalfEven_eq [OF assms(5)] assms(6,7) by (rule toDouble_roundI)

lemma toDouble_tieI:
  assumes "- 1022 \<le> k" "k \<le> 1023" "pow2 k \<le> \<bar>x\<bar>" "\<bar>x\<bar> < pow2 (k + 1)"
    and "\<bar>x\<bar> / pow2 (k - 52) = of_int f + 1 / 2"
    and "of_int (if even f then f else f + 1) * pow2 (k - 52) < pow2 1024"
    and "y = (if x < 0 then - (of_int (if even f then f else f + 1) * pow2 (k - 52))
              else of_int (if even f then f else f + 1) * pow2 (k - 52))"
  shows "toDouble x = Finite y"
  using assms(1-4) roundHalfEven_tie [OF assms(5)] assms(6,7) by (rule toDouble_roundI)

lemma toDouble_0: "toDouble 0 = Finite 0"
proof -
  have "binaryExponent 0 = - 1022" using pow2_pos by (intro binaryExponent_small)
  then show ?thesis
    using pow2_pos [of 1024] by (simp add: toDouble_def roundHalfEven_def not_le)
qed

lemma toDouble_not_NaN: "toDouble x \<noteq> NaN"
  by (simp add: toDouble_def Let_def)

subsection \<open>The sample weights, thresholds and sums as doubles\<close>

lemma toDouble_3_10: "toDouble (3 / 10) = Finite (5404319552844595 / 18014398509481984)"
  by (rule toDouble_eqI [where k = "- 2" and m = 5404319552844595])
    (simp_all add: pow2_def)

lemma toDouble_1_4: "toDouble (1 / 4) = Finite (1 / 4)"
  by (rule toDouble_eqI [where k = "- 2" and m = 4503599627370496])
    (simp_all add: pow2_def)

lemma toDouble_1_5: "toDouble (1 / 5) = Finite (3602879701896397 / 18014398509481984)"
  by (rule toDouble_eqI [where k = "- 3" and m = 7205759403792794])
    (simp_all add: pow2_def)

lemma toDouble_17_2: "toDouble (17 / 2) = Finite (17 / 2)"
  by (rule toDouble_eqI [where k = 3 and m = 4785074604081152])
    (simp_all add: pow2_def)

lemma toDouble_7: "toDouble 7 = Finite 7"
  by (rule toDouble_eqI [where k = 2 and m = 7881299347898368])
    (simp_all add: pow2_def)

lemma toDouble_5: "toDouble 5 = Finite 5"
  by (rule toDouble_eqI [where k = 2 and m = 5629499534213120])
    (simp_all add: pow2_def)

lemma toDouble_41_5: "toDouble (41 / 5) = Finite (2308094809027379 / 281474976710656)"
  by (rule toDouble_eqI [where k = 3 and m = 4616189618054758])
    (simp_all add: pow2_def)

lemma toDouble_9: "toDouble 9 = Finite 9"
  by (rule toDouble_eqI [where k = 3 and m = 5066549580791808])
    (simp_all add: pow2_def)

text \<open>Sub-scores 8.2, 5, 5, 0: the sum is 4.959999999999999 and the total 5.\<close>

lemma weightedSum_minimal:
  "weightedSum (weights sampleEngine)
     \<lparr>b_clarity = 2308094809027379 / 281474976710656, b_context = 5,
      b_completeness = 5, b_jiraLink = 0\<rparr> =
   Finite (2792231768969707 / 562949953421312)"
proof -
  have p1: "toDouble (2308094809027379 / 281474976710656 *
              (5404319552844595 / 18014398509481984)) =
              Finite (5539427541665709 / 2251799813685248)"
    by (rule toDouble_eqI [where k = 1 and m = 5539427541665709])
      (simp_all add: pow2_def)
  have p2: "toDouble (5 * (1 / 4)) =
              Finite (5 / 4)"
    by (rule toDouble_eqI [where k = 0 and m = 5629499534213120])
      (simp_all add: pow2_def)
  have p3: "toDouble (5 * (1 / 4)) =
              Finite (5 / 4)"
    by (rule toDouble_eqI [where k = 0 and m = 5629499534213120])
      (simp_all add: pow2_def)
  have p4: "toDouble (0 * (3602879701896397 / 18014398509481984)) = Finite 0"
    by (simp add: toDouble_0)
  have s1: "toDouble (5539427541665709 / 2251799813685248 +
              5 / 4) =
              Finite (8354177308772269 / 2251799813685248)"
    by (rule toDouble_eqI [where k = 1 and m = 8354177308772269])
      (simp_all add: pow2_def)
  have s2: "toDouble (8354177308772269 / 2251799813685248 +
              5 / 4) =
              Finite (2792231768969707 / 562949953421312)"
    by (rule toDouble_tieI [where k = 2 and f = 5584463537939414])
      (simp_all add: pow2_def)
  have s3: "toDouble (2792231768969707 / 562949953421312 +
              0) =
              Finite (2792231768969707 / 562949953421312)"
    by (rule toDouble_eqI [where k = 2 and m = 5584463537939414])
      (simp_all add: pow2_def)
  show ?thesis
    unfolding weightedSum_def
    by (simp only: scoring_engine.select_convs weights.select_convs breakdown.select_convs
        toDouble_3_10 toDouble_1_4 toDouble_1_5 js_mul.simps js_add.simps
        p1 p2 p3 p4 s1 s2 s3)
qed

lemma round1_minimal:
  "round1 (Finite (2792231768969707 / 562949953421312)) =
     Finite 5"
proof -
  have t10: "toDouble (2792231768969707 / 562949953421312 * 10) =
              Finite (1745144855606067 / 35184372088832)"
    by (rule toDouble_tieI [where k = 5 and f = 6980579422424267])
      (simp_all add: pow2_def)
  have fl: "\<lfloor>1745144855606067 / 35184372088832 + 1 / 2 :: rat\<rfloor> = 50"
    by (simp add: floor_eq_iff)
  have d10: "toDouble (50 / 10) =
              Finite 5"
    by (rule toDouble_eqI [where k = 2 and m = 5629499534213120])
      (simp_all add: pow2_def)
  have "Math_round (Finite (1745144855606067 / 35184372088832)) = Finite 50"
    by (simp only: Math_round.simps fl) simp
  then show ?thesis
    unfolding round1_def by (simp only: js_mul.simps t10 js_div10.simps d10)
qed



text \<open>Sub-scores 9, 5, 6, 0: the sum is 5.449999999999999 and the total 5.4.\<close>

lemma weightedSum_titled:
  "weightedSum (weights sampleEngine)
     \<lparr>b_clarity = 9, b_context = 5,
      b_completeness = 6, b_jiraLink = 0\<rparr> =
   Finite (1534038623073075 / 281474976710656)"
proof -
  have p1: "toDouble (9 * (5404319552844595 / 18014398509481984)) =
              Finite (6079859496950169 / 2251799813685248)"
    by (rule toDouble_eqI [where k = 1 and m = 6079859496950169])
      (simp_all add: pow2_def)
  have p2: "toDouble (5 * (1 / 4)) =
              Finite (5 / 4)"
    by (rule toDouble_eqI [where k = 0 and m = 5629499534213120])
      (simp_all add: pow2_def)
  have p3: "toDouble (6 * (1 / 4)) =
              Finite (3 / 2)"
    by (rule toDouble_eqI [where k = 0 and m = 6755399441055744])
      (simp_all add: pow2_def)
  have p4: "toDouble (0 * (3602879701896397 / 18014398509481984)) = Finite 0"
    by (simp add: toDouble_0)
  have s1: "toDouble (6079859496950169 / 2251799813685248 +
              5 / 4) =
              Finite (8894609264056729 / 2251799813685248)"
    by (rule toDouble_eqI [where k = 1 and m = 8894609264056729])
      (simp_all add: pow2_def)
  have s2: "toDouble (8894609264056729 / 2251799813685248 +
              3 / 2) =
              Finite (1534038623073075 / 281474976710656)"
    by (rule toDouble_tieI [where k = 2 and f = 6136154492292300])
      (simp_all add: pow2_def)
  have s3: "toDouble (1534038623073075 / 281474976710656 +
              0) =
              Finite (1534038623073075 / 281474976710656)"
    by (rule toDouble_eqI [where k = 2 and m = 6136154492292300])
      (simp_all add: pow2_def)
  show ?thesis
    unfolding weightedSum_def
    by (simp only: scoring_engine.select_convs weights.select_convs breakdown.select_convs
        toDouble_3_10 toDouble_1_4 toDouble_1_5 js_mul.simps js_add.simps
        p1 p2 p3 p4 s1 s2 s3)
qed

lemma round1_titled:
  "round1 (Finite (1534038623073075 / 281474976710656)) =
     Finite (3039929748475085 / 562949953421312)"
proof -
  have t10: "toDouble (1534038623073075 / 281474976710656 * 10) =
              Finite (7670193115365375 / 140737488355328)"
    by (rule toDouble_eqI [where k = 5 and m = 7670193115365375])
      (simp_all add: pow2_def)
  have fl: "\<lfloor>7670193115365375 / 140737488355328 + 1 / 2 :: rat\<rfloor> = 54"
    by (simp add: floor_eq_iff)
  have d10: "toDouble (54 / 10) =
              Finite (3039929748475085 / 562949953421312)"
    by (rule toDouble_eqI [where k = 2 and m = 6079859496950170])
      (simp_all add: pow2_def)
  have "Math_round (Finite (7670193115365375 / 140737488355328)) = Finite 54"
    by (simp only: Math_round.simps fl) simp
  then show ?thesis
    unfolding round1_def by (simp only: js_mul.simps t10 js_div10.simps d10)
qed

subsection \<open>Texts that do not parse as a number\<close>

lemma js_neg_NaN_iff: "js_neg v = NaN \<longleftrightarrow> v = NaN"
  by (cases v) simp_all

text \<open>\<open>parseFloat\<close> gives \<^verbatim>\<open>NaN\<close> exactly for the texts that are not numeric.\<close>

lemma parseFloat_NaN_iff: "parseFloat s = NaN \<longleftrightarrow> \<not> numericStart s"
proof -
  define u where "u = dropWhile isWhiteSpace s"
  show ?thesis
    unfolding parseFloat_def numericStart_def numericCore_def Let_def
    apply (fold u_def)
    apply (cases u)
     apply (simp add: stripSign_def codeUnits_def)
    apply (auto simp: stripSign_def toDouble_not_NaN js_neg_NaN_iff takeWhile_eq_Nil_iff
        isDigit_def split: list.splits prod.splits if_splits)
    done
qed

text \<open>Trimming does not change whether a text is numeric.\<close>

lemma trim_decomp:
  "\<exists>z. dropWhile isWhiteSpace s = trim s @ z \<and> (\<forall>c\<in>set z. isWhiteSpace c)"
proof -
  define u where "u = dropWhile isWhiteSpace s"
  have "rev u = takeWhile isWhiteSpace (rev u) @ dropWhile isWhiteSpace (rev u)" by simp
  then have "u = rev (dropWhile isWhiteSpace (rev u)) @ rev (takeWhile isWhiteSpace (rev u))"
    by (metis rev_append rev_rev_ident)
  moreover have "\<forall>c\<in>set (rev (takeWhile isWhiteSpace (rev u))). isWhiteSpace c"
    by (auto dest: set_takeWhileD)
  ultimately show ?thesis unfolding trim_def u_def by blast
qed

lemma dropWhile_trim: "dropWhile isWhiteSpace (trim s) = trim s"
proof (cases "trim s")
  case Nil
  then show ?thesis by simp
next
  case (Cons c r)
  obtain z where z: "dropWhile isWhiteSpace s = trim s @ z" using trim_decomp by blast
  then have "hd (dropWhile isWhiteSpace s) = c" using Cons by simp
  moreover have "dropWhile isWhiteSpace s \<noteq> []" using z Cons by simp
  ultimately have "\<not> isWhiteSpace c" using hd_dropWhile by metis
  then show ?thesis using Cons by simp
qed

lemma digit_not_space: "isDigit c \<Longrightarrow> \<not> isWhiteSpace c"
  by (auto simp: isDigit_def isWhiteSpace_def)

lemma infinity_not_space: "c \<in> set (codeUnits ''Infinity'') \<Longrightarrow> \<not> isWhiteSpace c"
  by (auto simp: codeUnits_def isWhiteSpace_def)

lemma take_append_pattern:
  assumes z: "\<forall>c\<in>set z. P c" and pat: "\<forall>c\<in>set pat. \<not> P c"
  shows "take (length pat) (v @ z) = pat \<longleftrightarrow> take (length pat) v = pat"
proof (cases "length pat \<le> length v")
  case True
  then show ?thesis by simp
next
  case False
  then have short: "length v < length pat" by simp
  have "take (length pat) v \<noteq> pat"
  proof
    assume "take (length pat) v = pat"
    then have "length (take (length pat) v) = length pat" by simp
    with short show False by simp
  qed
  moreover have "take (length pat) (v @ z) \<noteq> pat"
  proof
    assume eq: "take (length pat) (v @ z) = pat"
    then have "pat = v @ take (length pat - length v) z" using short by simp
    moreover have "take (length pat - length v) z \<noteq> []"
    proof
      assume "take (length pat - length v) z = []"
      with \<open>pat = v @ take (length pat - length v) z\<close> have "pat = v" by simp
      with short show False by simp
    qed
    ultimately obtain c where "c \<in> set (take (length pat - length v) z)" "c \<in> set pat"
      by (metis Un_iff hd_in_set set_append)
    then have "P c" "\<not> P c" using z pat by (auto dest: in_set_takeD)
    then show False by simp
  qed
  ultimately show ?thesis by simp
qed

lemma stripSign_append:
  assumes "\<forall>c\<in>set z. isWhiteSpace c"
  shows "stripSign (w @ z) = stripSign w @ z"
proof (cases w)
  case Nil
  then show ?thesis
    using assms by (cases z) (auto simp: stripSign_def isWhiteSpace_def)
next
  case (Cons c r)
  then show ?thesis by (simp add: stripSign_def)
qed

lemma numericCore_append:
  assumes "\<forall>c\<in>set z. isWhiteSpace c"
  shows "numericCore (v @ z) = numericCore v"
proof -
  have len: "length (codeUnits ''Infinity'') = 8" by (simp add: codeUnits_def)
  have "take (length (codeUnits ''Infinity'')) (v @ z) = codeUnits ''Infinity'' \<longleftrightarrow>
        take (length (codeUnits ''Infinity'')) v = codeUnits ''Infinity''"
  proof (rule take_append_pattern)
    show "\<forall>c\<in>set z. isWhiteSpace c" by (rule assms)
    show "\<forall>c\<in>set (codeUnits ''Infinity''). \<not> isWhiteSpace c"
      using infinity_not_space by blast
  qed
  then have inf: "take 8 (v @ z) = codeUnits ''Infinity'' \<longleftrightarrow> take 8 v = codeUnits ''Infinity''"
    by (simp only: len)
  have hd_z: "z = [] \<or> (\<not> isDigit (hd z) \<and> hd z \<noteq> of_char CHR ''.'')"
    using assms by (cases z) (auto simp: isDigit_def isWhiteSpace_def)
  have rest: "(case v @ z of
                 [] \<Rightarrow> False
               | c # r \<Rightarrow>
                   isDigit c \<or>
                   (c = of_char CHR ''.'' \<and> (case r of [] \<Rightarrow> False | d # r' \<Rightarrow> isDigit d)))
            = (case v of
                 [] \<Rightarrow> False
               | c # r \<Rightarrow>
                   isDigit c \<or>
                   (c = of_char CHR ''.'' \<and> (case r of [] \<Rightarrow> False | d # r' \<Rightarrow> isDigit d)))"
    using hd_z by (cases v; cases "tl v"; cases z) auto
  show ?thesis unfolding numericCore_def inf rest ..
qed

lemma numericCore_stripSign_append:
  assumes "\<forall>c\<in>set z. isWhiteSpace c"
  shows "numericCore (stripSign (w @ z)) = numericCore (stripSign w)"
  by (simp add: stripSign_append [OF assms] numericCore_append [OF assms])

lemma numericStart_trim: "numericStart (trim s) = numericStart s"
proof -
  obtain z where z: "dropWhile isWhiteSpace s = trim s @ z" "\<forall>c\<in>set z. isWhiteSpace c"
    using trim_decomp by blast
  show ?thesis
    unfolding numericStart_def dropWhile_trim z(1)
    using numericCore_stripSign_append [OF z(2)] by simp
qed


lemma parseFloat_trim_NaN_iff: "parseFloat (trim s) = NaN \<longleftrightarrow> \<not> numericStart s"
  by (simp add: parseFloat_NaN_iff numericStart_trim)

lemma whitespace_not_numeric:
  assumes "\<forall>c\<in>set s. isWhiteSpace c"
  shows "\<not> numericStart s"
proof -
  have dw: "dropWhile isWhiteSpace s = []" using assms by simp
  show ?thesis
    unfolding numericStart_def dw by (simp add: stripSign_def numericCore_def codeUnits_def)
qed

subsection \<open>What \<open>calculateScore\<close> returns, and when it throws\<close>

lemma calculateScore_Inr:
  assumes "calculateScore eng client now p = Inr r"
  shows "breakdown r =
           \<lparr>b_clarity = analyzeClarityScore (clarityCompletion client) (title p) (description p),
            b_context = analyzeContextScore (description p) (files p),
            b_completeness = analyzeCompletenessScore p,
            b_jiraLink = analyzeJiraLinkScore (jiraContext p)\<rparr>"
    and "totalScore r = round1 (weightedSum (weights eng) (breakdown r))"
    and "rating r = getRating eng (weightedSum (weights eng) (breakdown r))"
    and "timestamp r = now"
  using assms
  by (auto simp: calculateScore_def weightedSum_def round1_def Let_def split: sum.splits)

text \<open>
  The engine throws exactly when the suggestion call throws while some sub-score is
  below 7; a failing clarity call alone never makes it throw.
\<close>

lemma calculateScore_throws_iff:
  "(\<exists>e. calculateScore eng client now p = Inl e) \<longleftrightarrow>
   suggestionCompletion client = Throws \<and>
   (analyzeClarityScore (clarityCompletion client) (title p) (description p) < 7 \<or>
    analyzeContextScore (description p) (files p) < 7 \<or>
    analyzeCompletenessScore p < 7 \<or>
    analyzeJiraLinkScore (jiraContext p) < 7)"
  by (cases "suggestionCompletion client")
    (auto simp: calculateScore_def generateSuggestions_def Let_def lowScoreAreasOf_def
      scoreEntries_def split: sum.splits json.splits)

lemma calculateScore_returns:
  assumes "suggestionCompletion client = Returns parsed"
  shows "\<exists>r. calculateScore eng client now p = Inr r"
proof (cases "calculateScore eng client now p")
  case (Inl e)
  then have "suggestionCompletion client = Throws"
    using calculateScore_throws_iff [of eng client now p] by blast
  with assms show ?thesis by simp
next
  case (Inr r)
  then show ?thesis by blast
qed

lemma calculateScore_returns_iff:
  "(\<exists>r. calculateScore eng client now p = Inr r) \<longleftrightarrow>
   \<not> (suggestionCompletion client = Throws \<and>
      (analyzeClarityScore (clarityCompletion client) (title p) (description p) < 7 \<or>
       analyzeContextScore (description p) (files p) < 7 \<or>
       analyzeCompletenessScore p < 7 \<or>
       analyzeJiraLinkScore (jiraContext p) < 7))"
proof -
  have "(\<exists>r. calculateScore eng client now p = Inr r) \<longleftrightarrow>
        \<not> (\<exists>e. calculateScore eng client now p = Inl e)"
    by (cases "calculateScore eng client now p") simp_all
  then show ?thesis by (simp only: calculateScore_throws_iff)
qed

subsection \<open>Clamping\<close>

lemma clamp_max_min: "max 1 (min 10 x) = clamp 1 10 x"
  by (simp add: clamp_def max_def min_def)

subsection \<open>Comparisons\<close>

lemma js_ge_upward: "js_lt t1 t2 \<Longrightarrow> js_ge t1 b \<Longrightarrow> js_ge t2 b"
  by (cases t1; cases t2; cases b) simp_all

subsection \<open>The engine on the sample inputs\<close>

lemmas string_defs =
  toLowerCase_def lowerChar_def startsWith_def endsWith_def truthy_def strlen_def

lemmas parse_defs =
  parseFloat_def trim_def codeUnits_def isWhiteSpace_def isDigit_def decimalValue_def
  pow10_def exponentPart_def

lemmas run_defs =
  analyzeClarityScore_def generateSuggestions_def lowScoreAreasOf_def scoreEntries_def

lemma parseFloat_8_2:
  "parseFloat (trim (codeUnits ''8.2'')) = Finite (2308094809027379 / 281474976710656)"
  by (simp add: parse_defs toDouble_41_5)

lemma parseFloat_9: "parseFloat (trim (codeUnits ''9'')) = Finite 9"
  by (simp add: parse_defs toDouble_9)

lemma parseFloat_NA: "parseFloat (trim (codeUnits ''N/A'')) = NaN"
  by (simp add: parse_defs)

text \<open>A no-break space before the digit is skipped, as any white space is.\<close>

lemma parseFloat_nbsp_8: "parseFloat (trim [160, 56]) = Finite 8"
proof -
  have "toDouble 8 = Finite 8"
    by (rule toDouble_eqI [where k = 3 and m = 4503599627370496]) (simp_all add: pow2_def)
  then show ?thesis by (simp add: parse_defs)
qed

lemma sample_thresholds:
  "getRating sampleEngine (Finite t) =
     (if 17 / 2 \<le> t then Excellent else if 7 \<le> t then Good
      else if 5 \<le> t then NeedsImprovement else Poor)"
  by (simp add: getRating_def toDouble_17_2 toDouble_7 toDouble_5)

lemma minimalPr_scores:
  "fallbackClarityScore ''x'' None = 5"
  "analyzeContextScore None (Some []) = 5"
  "analyzeCompletenessScore minimalPr = 5"
  "analyzeJiraLinkScore None = 0"
  by (simp_all add: fallbackClarityScore_def analyzeContextScore_def
      analyzeCompletenessScore_def analyzeJiraLinkScore_def conventionalTitle_def
      conventionalPrefixes_def contextKeywords_def string_defs)

lemma titledPr_completeness: "analyzeCompletenessScore titledPr = 6"
  by (simp add: analyzeCompletenessScore_def string_defs)


lemma loginPr_fallbackClarity:
  "fallbackClarityScore ''feat: add OAuth2 login'' (Some loginDescription) = 10"
  by (simp add: fallbackClarityScore_def conventionalTitle_def conventionalPrefixes_def
      string_defs)

lemma loginPr_context:
  "analyzeContextScore (Some loginDescription)
     (Some [\<lparr>filename = ''src/login.js'', status = ''added''\<rparr>,
            \<lparr>filename = ''README.md'', status = ''modified''\<rparr>]) = 15 / 2"
  by (simp add: analyzeContextScore_def contextKeywords_def string_defs)

lemma loginPr_completeness: "analyzeCompletenessScore loginPr = 10"
  by (simp add: analyzeCompletenessScore_def isDocFile_def string_defs)

lemma loginPr_jiraLink:
  "analyzeJiraLinkScore
     (Some \<lparr>ticketId = Some ''PROJ-7'', ticketStatus = Some ''In Progress'',
            ticketType = Some ''Story'', priority = Some ''High''\<rparr>) = 10"
  by (simp add: analyzeJiraLinkScore_def truthy_def)

text \<open>
  The model answers 8.2 for the minimal request: the sum is 4.959999999999999, below
  the threshold 5, and the reported total is 5.
\<close>

lemma run_minimalPr:
  "calculateScore sampleEngine
     \<lparr>clarityCompletion = Returns (codeUnits ''8.2''),
      suggestionCompletion = Returns (JArr sugg)\<rparr>
     sampleTime minimalPr =
     Inr \<lparr>totalScore = Finite 5,
          breakdown =
            \<lparr>b_clarity = 2308094809027379 / 281474976710656, b_context = 5,
             b_completeness = 5, b_jiraLink = 0\<rparr>,
          rating = Poor, suggestions = sugg, timestamp = sampleTime\<rparr>"
proof -
  obtain r where r: "calculateScore sampleEngine
     \<lparr>clarityCompletion = Returns (codeUnits ''8.2''),
      suggestionCompletion = Returns (JArr sugg)\<rparr> sampleTime minimalPr = Inr r"
    using calculateScore_returns [of _ "JArr sugg"] by fastforce
  have b: "breakdown r =
            \<lparr>b_clarity = 2308094809027379 / 281474976710656, b_context = 5,
             b_completeness = 5, b_jiraLink = 0\<rparr>"
    using calculateScore_Inr(1) [OF r]
    by (simp add: analyzeClarityScore_def parseFloat_8_2 minimalPr_scores)
  have "totalScore r = Finite 5"
    using calculateScore_Inr(2) [OF r] by (simp only: b weightedSum_minimal round1_minimal)
  moreover have "rating r = Poor"
    using calculateScore_Inr(3) [OF r]
    by (simp only: b weightedSum_minimal sample_thresholds) simp
  moreover have "suggestions r = sugg"
    using r unfolding calculateScore_def Let_def
    by (auto simp: run_defs parseFloat_8_2 minimalPr_scores split: sum.splits)
  moreover have "timestamp r = sampleTime" using calculateScore_Inr(4) [OF r] .
  ultimately have "r = \<lparr>totalScore = Finite 5,
          breakdown =
            \<lparr>b_clarity = 2308094809027379 / 281474976710656, b_context = 5,
             b_completeness = 5, b_jiraLink = 0\<rparr>,
          rating = Poor, suggestions = sugg, timestamp = sampleTime\<rparr>"
    using b by (cases r) simp
  with r show ?thesis by simp
qed


text \<open>
  The model answers 9 for the request with a title only: the sub-scores 9, 5, 6, 0 have
  the sum 5.449999999999999 in doubles (5.45 in exact arithmetic), reported as 5.4.
\<close>

lemma run_titledPr:
  "calculateScore sampleEngine
     \<lparr>clarityCompletion = Returns (codeUnits ''9''),
      suggestionCompletion = Returns (JArr sugg)\<rparr>
     sampleTime titledPr =
     Inr \<lparr>totalScore = Finite (3039929748475085 / 562949953421312),
          breakdown =
            \<lparr>b_clarity = 9, b_context = 5,
             b_completeness = 6, b_jiraLink = 0\<rparr>,
          rating = NeedsImprovement, suggestions = sugg, timestamp = sampleTime\<rparr>"
proof -
  obtain r where r: "calculateScore sampleEngine
     \<lparr>clarityCompletion = Returns (codeUnits ''9''),
      suggestionCompletion = Returns (JArr sugg)\<rparr> sampleTime titledPr = Inr r"
    using calculateScore_returns [of _ "JArr sugg"] by fastforce
  have b: "breakdown r =
            \<lparr>b_clarity = 9, b_context = 5,
             b_completeness = 6, b_jiraLink = 0\<rparr>"
    using calculateScore_Inr(1) [OF r]
    by (simp add: analyzeClarityScore_def parseFloat_9 minimalPr_scores titledPr_completeness)
  have "totalScore r = Finite (3039929748475085 / 562949953421312)"
    using calculateScore_Inr(2) [OF r] by (simp only: b weightedSum_titled round1_titled)
  moreover have "rating r = NeedsImprovement"
    using calculateScore_Inr(3) [OF r]
    by (simp only: b weightedSum_titled sample_thresholds) simp
  moreover have "suggestions r = sugg"
    using r unfolding calculateScore_def Let_def
    by (auto simp: run_defs parseFloat_9 minimalPr_scores titledPr_completeness split: sum.splits)
  moreover have "timestamp r = sampleTime" using calculateScore_Inr(4) [OF r] .
  ultimately have "r = \<lparr>totalScore = Finite (3039929748475085 / 562949953421312),
          breakdown =
            \<lparr>b_clarity = 9, b_context = 5,
             b_completeness = 6, b_jiraLink = 0\<rparr>,
          rating = NeedsImprovement, suggestions = sugg, timestamp = sampleTime\<rparr>"
    using b by (cases r) simp
  with r show ?thesis by simp
qed

subsection \<open>Failures of the model client\<close>

text \<open>
  Claim C1 says that \<open>calculateScore\<close> returns a complete result, and never throws,
  whenever the model client throws on a call. That holds of the clarity call, whose
  handler returns \<open>fallbackClarityScore\<close>. It does not hold of the suggestion call:
  the handler in \<open>generateSuggestions\<close> names \<open>lowScoreAreas\<close> outside its scope,
  the \<open>ReferenceError\<close> leaves \<open>generateSuggestions\<close>, and \<open>calculateScore\<close>
  rethrows it as its own error. The minimal request with a client that throws on both
  calls shows it (see also \<open>calculateScore_throws_iff\<close>).
\<close>

theorem suggestion_failure_escapes:
  "analyzeClarityScore Throws (title minimalPr) (description minimalPr) =
     fallbackClarityScore (title minimalPr) (description minimalPr) \<and>
   generateSuggestions Throws minimalPr (scoreEntries 5 5 5 0) =
     Inl (ReferenceError ''lowScoreAreas is not defined'') \<and>
   calculateScore sampleEngine \<lparr>clarityCompletion = Throws, suggestionCompletion = Throws\<rparr>
     sampleTime minimalPr = Inl (Error ''Failed to calculate PR score'')"
proof -
  have "calculateScore sampleEngine \<lparr>clarityCompletion = Throws, suggestionCompletion = Throws\<rparr>
     sampleTime minimalPr = Inl (Error ''Failed to calculate PR score'')"
    unfolding calculateScore_def Let_def by (simp add: run_defs minimalPr_scores)
  moreover have "generateSuggestions Throws minimalPr (scoreEntries 5 5 5 0) =
     Inl (ReferenceError ''lowScoreAreas is not defined'')"
    by (simp add: run_defs)
  ultimately show ?thesis by (simp add: analyzeClarityScore_def)
qed

subsection \<open>A reply that is not a number\<close>

text \<open>
  Claim C2, as stated, fails: when \<open>parseFloat\<close> gives \<open>NaN\<close> the code returns the
  constant 5.0 and does not call the heuristic. For the login request the reply
  \<^verbatim>\<open>N/A\<close> gives the clarity score 5, while the heuristic gives 10.
\<close>

theorem nan_reply_counterexample:
  "parseFloat (trim (codeUnits ''N/A'')) = NaN \<and>
   analyzeClarityScore (Returns (codeUnits ''N/A'')) (title loginPr) (description loginPr) = 5 \<and>
   fallbackClarityScore (title loginPr) (description loginPr) = 10"
  by (simp add: analyzeClarityScore_def parseFloat_NA loginPr_fallbackClarity)

text \<open>
  Claim C2, amended. If the model's clarity reply does not parse as a number, the
  clarity sub-score is exactly 5.0, whatever the title and the description are, and no
  failure is raised. The replies that do not parse are exactly the texts that are not
  numeric: those that, after leading white space and an optional sign, begin neither
  with a digit, nor with a dot and a digit, nor with \<^verbatim>\<open>Infinity\<close>. The empty reply
  and a reply of white space only are among them.
\<close>

theorem non_numeric_reply_scores_five:
  "(\<not> numericStart content \<longrightarrow> analyzeClarityScore (Returns content) t d = 5) \<and>
   (parseFloat (trim content) = NaN \<longleftrightarrow> \<not> numericStart content) \<and>
   analyzeClarityScore (Returns []) t d = 5 \<and>
   ((\<forall>c\<in>set content. isWhiteSpace c) \<longrightarrow> analyzeClarityScore (Returns content) t d = 5)"
proof -
  have five: "analyzeClarityScore (Returns s) t d = 5" if "\<not> numericStart s" for s
    using that parseFloat_trim_NaN_iff [of s] by (simp add: analyzeClarityScore_def)
  have "\<not> numericStart []"
    by (rule whitespace_not_numeric) simp
  then have empty: "analyzeClarityScore (Returns []) t d = 5" by (rule five)
  have blank: "analyzeClarityScore (Returns content) t d = 5"
    if "\<forall>c\<in>set content. isWhiteSpace c"
    using that by (intro five whitespace_not_numeric)
  show ?thesis
    using five [of content] parseFloat_trim_NaN_iff [of content] empty blank by blast
qed

text \<open>
  \<^verbatim>\<open>N/A\<close>, a sign without digits and two spaces are not numeric and score 5; a
  no-break space before \<^verbatim>\<open>8\<close> is skipped, and the reply scores 8.
\<close>

theorem non_numeric_reply_scores_five_witness:
  "\<not> numericStart (codeUnits ''N/A'') \<and>
   analyzeClarityScore (Returns (codeUnits ''N/A'')) (title loginPr) (description loginPr) = 5 \<and>
   \<not> numericStart (codeUnits ''-.'') \<and>
   analyzeClarityScore (Returns (codeUnits ''-.'')) (title loginPr) (description loginPr) = 5 \<and>
   list_all isWhiteSpace (codeUnits ''  '') \<and>
   analyzeClarityScore (Returns (codeUnits ''  '')) (title loginPr) (description loginPr) = 5 \<and>
   numericStart [160, 56] \<and>
   analyzeClarityScore (Returns [160, 56]) (title loginPr) (description loginPr) = 8"
proof -
  have a: "\<not> numericStart (codeUnits ''N/A'')"
    by (simp add: numericStart_def stripSign_def numericCore_def codeUnits_def isWhiteSpace_def
        isDigit_def)
  have b: "\<not> numericStart (codeUnits ''-.'')"
    by (simp add: numericStart_def stripSign_def numericCore_def codeUnits_def isWhiteSpace_def
        isDigit_def)
  have c: "\<forall>c\<in>set (codeUnits ''  ''). isWhiteSpace c"
    by (simp add: codeUnits_def isWhiteSpace_def)
  have d: "numericStart [160, 56]"
    by (simp add: numericStart_def stripSign_def numericCore_def codeUnits_def isWhiteSpace_def
        isDigit_def)
  have e: "analyzeClarityScore (Returns [160, 56]) (title loginPr) (description loginPr) = 8"
    by (simp add: analyzeClarityScore_def parseFloat_nbsp_8)
  note t = non_numeric_reply_scores_five [where t = "title loginPr" and d = "description loginPr"]
  have c': "list_all isWhiteSpace (codeUnits ''  '')"
    using c by (simp add: list_all_iff)
  from t [of "codeUnits ''N/A''"] t [of "codeUnits ''-.''"] t [of "codeUnits ''  ''"]
    a b c c' d e
  show ?thesis by blast
qed

subsection \<open>The rating and the rounded total\<close>




text \<open>
  Claim C4. A result is returned unless the suggestion call throws while a sub-score is
  below 7 (so whenever that call returns), and the total of a returned result is the
  weighted sum of the sub-scores in the result's own breakdown,
  rounded once to one decimal place: when ten times the sum is the finite number \<open>v\<close>,
  the total is the double of \<open>k / 10\<close> for the integer \<open>k\<close> nearest to \<open>v\<close>. Sum,
  product and quotient are those of the engine's doubles. The breakdown holds the four
  sub-scores as the evaluators returned them, unrounded.
\<close>

theorem total_is_rounded_weighted_sum:
  "((\<exists>r. calculateScore eng client now p = Inr r) \<longleftrightarrow>
      \<not> (suggestionCompletion client = Throws \<and>
         (analyzeClarityScore (clarityCompletion client) (title p) (description p) < 7 \<or>
          analyzeContextScore (description p) (files p) < 7 \<or>
          analyzeCompletenessScore p < 7 \<or>
          analyzeJiraLinkScore (jiraContext p) < 7))) \<and>
   (\<forall>r. calculateScore eng client now p = Inr r \<longrightarrow>
      totalScore r = round1 (weightedSum (weights eng) (breakdown r)) \<and>
      (\<forall>v. js_mul (weightedSum (weights eng) (breakdown r)) (Finite 10) = Finite v \<longrightarrow>
           totalScore r = toDouble (of_int \<lfloor>v + 1 / 2\<rfloor> / 10)) \<and>
      breakdown r =
        \<lparr>b_clarity = analyzeClarityScore (clarityCompletion client) (title p) (description p),
         b_context = analyzeContextScore (description p) (files p),
         b_completeness = analyzeCompletenessScore p,
         b_jiraLink = analyzeJiraLinkScore (jiraContext p)\<rparr>)"
proof (intro conjI allI impI)
  show "(\<exists>r. calculateScore eng client now p = Inr r) \<longleftrightarrow>
      \<not> (suggestionCompletion client = Throws \<and>
         (analyzeClarityScore (clarityCompletion client) (title p) (description p) < 7 \<or>
          analyzeContextScore (description p) (files p) < 7 \<or>
          analyzeCompletenessScore p < 7 \<or>
          analyzeJiraLinkScore (jiraContext p) < 7))"
    by (rule calculateScore_returns_iff)
next
  fix r assume r: "calculateScore eng client now p = Inr r"
  show t: "totalScore r = round1 (weightedSum (weights eng) (breakdown r))"
    by (rule calculateScore_Inr(2) [OF r])
  show "breakdown r =
        \<lparr>b_clarity = analyzeClarityScore (clarityCompletion client) (title p) (description p),
         b_context = analyzeContextScore (description p) (files p),
         b_completeness = analyzeCompletenessScore p,
         b_jiraLink = analyzeJiraLinkScore (jiraContext p)\<rparr>"
    by (rule calculateScore_Inr(1) [OF r])
  fix v assume "js_mul (weightedSum (weights eng) (breakdown r)) (Finite 10) = Finite v"
  then show "totalScore r = toDouble (of_int \<lfloor>v + 1 / 2\<rfloor> / 10)"
    unfolding t round1_def by simp
qed

text \<open>
  The request with a title only: the sub-scores 9, 5, 6, 0 have the sum
  5.449999999999999 in doubles, ten times that is 54.49999999999999, and the reported
  total is 5.4, the double of 54 / 10.
\<close>

theorem total_is_rounded_weighted_sum_witness:
  "calculateScore sampleEngine
     \<lparr>clarityCompletion = Returns (codeUnits ''9''),
      suggestionCompletion = Returns (JArr [])\<rparr>
     sampleTime titledPr =
     Inr \<lparr>totalScore = Finite (3039929748475085 / 562949953421312),
          breakdown = \<lparr>b_clarity = 9, b_context = 5, b_completeness = 6, b_jiraLink = 0\<rparr>,
          rating = NeedsImprovement, suggestions = [], timestamp = sampleTime\<rparr> \<and>
   weightedSum (weights sampleEngine)
     \<lparr>b_clarity = 9, b_context = 5, b_completeness = 6, b_jiraLink = 0\<rparr> =
     Finite (1534038623073075 / 281474976710656) \<and>
   round1 (Finite (1534038623073075 / 281474976710656)) = Finite (3039929748475085 / 562949953421312) \<and>
   toDouble (54 / 10) = Finite (3039929748475085 / 562949953421312)"
proof -
  note run = run_titledPr [of "[]"]
  from total_is_rounded_weighted_sum
    [where client = "\<lparr>clarityCompletion = Returns (codeUnits ''9''),
                     suggestionCompletion = Returns (JArr [])\<rparr>"
       and eng = sampleEngine and now = sampleTime and p = titledPr]
  have "totalScore r = round1 (weightedSum (weights sampleEngine) (breakdown r))"
    if "calculateScore sampleEngine
          \<lparr>clarityCompletion = Returns (codeUnits ''9''),
           suggestionCompletion = Returns (JArr [])\<rparr> sampleTime titledPr = Inr r" for r
    using that by blast
  from this [OF run]
  have "Finite (3039929748475085 / 562949953421312) = round1 (Finite (1534038623073075 / 281474976710656))"
    by (simp only: scoring_result.select_convs weightedSum_titled)
  moreover have "toDouble (54 / 10) = Finite (3039929748475085 / 562949953421312)"
    by (rule toDouble_eqI [where k = 2 and m = 6079859496950170]) (simp_all add: pow2_def)
  ultimately show ?thesis using run weightedSum_titled by simp
qed

subsection \<open>All four sub-scores\<close>

text \<open>
  Claim C5. For every request, whatever the model replies, clarity, context and
  completeness lie in [1,10], the ticket-link score lies in [0,10], and the ticket-link
  score is 0 exactly when the request has no ticket context. The same holds of the
  breakdown of every result that \<open>calculateScore\<close> returns.
\<close>

theorem sub_scores_in_range:
  "(1 \<le> analyzeClarityScore reply (title p) (description p) \<and>
    analyzeClarityScore reply (title p) (description p) \<le> 10) \<and>
   (1 \<le> analyzeContextScore (description p) (files p) \<and>
    analyzeContextScore (description p) (files p) \<le> 10) \<and>
   (1 \<le> analyzeCompletenessScore p \<and> analyzeCompletenessScore p \<le> 10) \<and>
   (0 \<le> analyzeJiraLinkScore (jiraContext p) \<and> analyzeJiraLinkScore (jiraContext p) \<le> 10) \<and>
   (analyzeJiraLinkScore (jiraContext p) = 0 \<longleftrightarrow> jiraContext p = None) \<and>
   (\<forall>r. calculateScore eng client now p = Inr r \<longrightarrow>
      (1 \<le> b_clarity (breakdown r) \<and> b_clarity (breakdown r) \<le> 10) \<and>
      (1 \<le> b_context (breakdown r) \<and> b_context (breakdown r) \<le> 10) \<and>
      (1 \<le> b_completeness (breakdown r) \<and> b_completeness (breakdown r) \<le> 10) \<and>
      (0 \<le> b_jiraLink (breakdown r) \<and> b_jiraLink (breakdown r) \<le> 10) \<and>
      (b_jiraLink (breakdown r) = 0 \<longleftrightarrow> jiraContext p = None))"
proof -
  have res: "(1 \<le> b_clarity (breakdown r) \<and> b_clarity (breakdown r) \<le> 10) \<and>
      (1 \<le> b_context (breakdown r) \<and> b_context (breakdown r) \<le> 10) \<and>
      (1 \<le> b_completeness (breakdown r) \<and> b_completeness (breakdown r) \<le> 10) \<and>
      (0 \<le> b_jiraLink (breakdown r) \<and> b_jiraLink (breakdown r) \<le> 10) \<and>
      (b_jiraLink (breakdown r) = 0 \<longleftrightarrow> jiraContext p = None)"
    if "calculateScore eng client now p = Inr r" for r
    using calculateScore_Inr(1) [OF that]
      analyzeClarityScore_range [of "clarityCompletion client" "title p" "description p"]
      analyzeContextScore_range [of "description p" "files p"]
      analyzeCompletenessScore_range [of p]
      analyzeJiraLinkScore_range [of "jiraContext p"]
      analyzeJiraLinkScore_zero_iff [of "jiraContext p"]
    by simp
  show ?thesis
    using analyzeClarityScore_range [of reply "title p" "description p"]
      analyzeContextScore_range [of "description p" "files p"]
      analyzeCompletenessScore_range [of p]
      analyzeJiraLinkScore_range [of "jiraContext p"]
      analyzeJiraLinkScore_zero_iff [of "jiraContext p"] res
    by blast
qed


text \<open>
  The minimal request has no ticket context and the ticket-link score 0; the login
  request has one and a score other than 0.
\<close>

theorem sub_scores_in_range_witness:
  "calculateScore sampleEngine
     \<lparr>clarityCompletion = Returns (codeUnits ''8.2''),
      suggestionCompletion = Returns (JArr [JStr ''Describe the change''])\<rparr>
     sampleTime minimalPr =
     Inr \<lparr>totalScore = Finite 5,
          breakdown =
            \<lparr>b_clarity = 2308094809027379 / 281474976710656, b_context = 5,
             b_completeness = 5, b_jiraLink = 0\<rparr>,
          rating = Poor, suggestions = [JStr ''Describe the change''],
          timestamp = sampleTime\<rparr> \<and>
   jiraContext minimalPr = None \<and>
   analyzeJiraLinkScore (jiraContext minimalPr) = 0 \<and>
   analyzeJiraLinkScore (jiraContext loginPr) \<noteq> 0"
  using sub_scores_in_range [of "Returns (codeUnits ''8.2'')" minimalPr sampleEngine
      "\<lparr>clarityCompletion = Returns (codeUnits ''8.2''),
        suggestionCompletion = Returns (JArr [JStr ''Describe the change''])\<rparr>"
      sampleTime]
    sub_scores_in_range [of "Returns (codeUnits ''8.2'')" loginPr sampleEngine
      "\<lparr>clarityCompletion = Returns (codeUnits ''8.2''),
        suggestionCompletion = Returns (JArr [JStr ''Describe the change''])\<rparr>"
      sampleTime]
    run_minimalPr [of "[JStr ''Describe the change'']"]
  by simp

subsection \<open>The context score\<close>

text \<open>
  Claim C6. The context sub-score is the specification's formula: base 5.0; +1.5 for a
  description longer than 100; a further +1.0 when it is longer than 300; +1.5 when it
  contains one of "because", "fixes", "addresses", "implements", "refactor",
  case-insensitively; +1.0 only when the number of changed files is positive and at most
  5; -1.0 when it is more than 10; clamped to [1,10]. An empty description with an
  empty file list gives 5.0.
\<close>

theorem context_score_formula:
  "analyzeContextScore d fs = context_spec (textOf d) (length (listOf fs)) \<and>
   analyzeContextScore (Some []) (Some []) = 5"
proof -
  have kw: "list_ex
              (\<lambda>keyword. case d of None \<Rightarrow> False
                         | Some t \<Rightarrow> includes_str (toLowerCase t) keyword)
              contextKeywords
            = list_ex (contains_ci (textOf d)) rationaleKeywords"
    by (cases d)
      (simp_all add: contextKeywords_def rationaleKeywords_def contains_ci_def textOf_def
        toLowerCase_def lowerChar_def startsWith_def)
  have "analyzeContextScore d fs = context_spec (textOf d) (length (listOf fs))"
    unfolding analyzeContextScore_def context_spec_def Let_def kw clamp_max_min
    by (cases d; cases fs)
      (auto simp: bonus_def truthy_def strlen_def textOf_def listOf_def)
  moreover have "analyzeContextScore (Some []) (Some []) = 5"
    by (simp add: analyzeContextScore_def contextKeywords_def string_defs)
  ultimately show ?thesis by simp
qed

text \<open>
  The login request: 63 characters of description containing "Implements" and two
  files give 5 + 1.5 + 1 = 7.5 on both sides.
\<close>

theorem context_score_formula_witness:
  "analyzeContextScore (description loginPr) (files loginPr) = 15 / 2 \<and>
   context_spec (textOf (description loginPr)) (length (listOf (files loginPr))) = 15 / 2"
  using context_score_formula [of "description loginPr" "files loginPr"] loginPr_context
  by simp

subsection \<open>The completeness score\<close>

lemma isDocFile_docBySubstring: "isDocFile f = docBySubstring (filename f)"
  by (simp add: isDocFile_def docBySubstring_def contains_ci_def toLowerCase_def lowerChar_def)

lemma list_ex_isDocFile: "list_ex isDocFile l = list_ex docBySubstring (map filename l)"
  by (induction l) (simp_all add: isDocFile_docBySubstring)

text \<open>
  Claim C7, as stated, fails: the code looks for the text ".md" anywhere in the
  lower-cased file name, not at its end. A request whose only file is
  \<^verbatim>\<open>checksums.md5\<close> (no "readme", not ending with a markdown extension) gets the
  documentation bonus: the code gives 5 + 1 + 1 = 7, the specification's formula 6.
\<close>

theorem completeness_suffix_counterexample:
  "analyzeCompletenessScore
     \<lparr>prId = ''43'', title = ''x'', description = None,
      files = Some [\<lparr>filename = ''checksums.md5'', status = ''added''\<rparr>],
      tests = None, jiraContext = None\<rparr> = 7 \<and>
   completeness_spec ''x'' [] [''checksums.md5''] 0 = 6"
  by (simp add: analyzeCompletenessScore_def isDocFile_def completeness_spec_def
      completeness_with_def docBySuffix_def contains_ci_def bonus_def clamp_def string_defs)

text \<open>
  Claim C7, amended. The completeness sub-score is: base 5.0; +1.0 for a title longer
  than 10; +1.0 for a description longer than 50; +1.0 for at least one changed file;
  +2.0 for at least one test reference; +1.0 when some changed file name contains,
  case-insensitively, "readme" or the text ".md" anywhere in it (so also every name
  that ends with ".md"); clamped to [1,10].
\<close>

theorem completeness_score_formula:
  "analyzeCompletenessScore p =
     completeness_amended (title p) (textOf (description p))
       (map filename (listOf (files p))) (length (listOf (tests p)))"
proof -
  have doc: "(case files p of None \<Rightarrow> False | Some l \<Rightarrow> list_ex isDocFile l) =
             list_ex docBySubstring (map filename (listOf (files p)))"
    by (cases "files p") (simp_all add: listOf_def list_ex_isDocFile)
  show ?thesis
    unfolding analyzeCompletenessScore_def completeness_amended_def completeness_with_def
      Let_def doc clamp_max_min
    by (cases "description p"; cases "files p"; cases "tests p")
      (auto simp: bonus_def truthy_def strlen_def textOf_def listOf_def)
qed

text \<open>The login request earns every bonus: 5 + 1 + 1 + 1 + 2 + 1 = 11, clamped to 10.\<close>

theorem completeness_score_formula_witness:
  "analyzeCompletenessScore loginPr = 10 \<and>
   completeness_amended (title loginPr) (textOf (description loginPr))
     (map filename (listOf (files loginPr))) (length (listOf (tests loginPr))) = 10"
  using completeness_score_formula [of loginPr] loginPr_completeness
  by simp

subsection \<open>Suggestions\<close>

lemma getFallbackSuggestions_entries:
  "getFallbackSuggestions (lowScoreAreasOf (scoreEntries c x m j)) = fallback_spec c x m j"
  by (simp add: getFallbackSuggestions_def lowScoreAreasOf_def scoreEntries_def
      fallback_spec_def suggestionIfWeak_def fallbackTable_def)

lemma fallback_spec_distinct: "distinct (fallback_spec c x m j)"
  by (simp add: fallback_spec_def suggestionIfWeak_def)

lemma lowScoreAreasOf_empty_iff:
  "lowScoreAreasOf (scoreEntries c x m j) = [] \<longleftrightarrow> 7 \<le> c \<and> 7 \<le> x \<and> 7 \<le> m \<and> 7 \<le> j"
  by (simp add: lowScoreAreasOf_def scoreEntries_def)

text \<open>
  Claim C8. When all four sub-scores are at least 7, \<open>generateSuggestions\<close> returns
  the one affirmation string, whatever the model does. Otherwise the deterministic
  fallback, \<open>getFallbackSuggestions\<close> on the weak dimensions, is the list of the
  fixed suggestions of exactly the dimensions below 7, in the order clarity, context,
  completeness, ticket link, without duplicates; it is what \<open>generateSuggestions\<close>
  returns when the model's reply parses to something that is not an array.
\<close>

theorem suggestions_affirmation_or_fallback:
  "(7 \<le> c \<and> 7 \<le> x \<and> 7 \<le> m \<and> 7 \<le> j \<longrightarrow>
      generateSuggestions reply p (scoreEntries c x m j) = Inr [JStr affirmation]) \<and>
   getFallbackSuggestions (lowScoreAreasOf (scoreEntries c x m j)) = fallback_spec c x m j \<and>
   distinct (getFallbackSuggestions (lowScoreAreasOf (scoreEntries c x m j))) \<and>
   (\<not> (7 \<le> c \<and> 7 \<le> x \<and> 7 \<le> m \<and> 7 \<le> j) \<and> (\<forall>xs. parsed \<noteq> JArr xs) \<longrightarrow>
      generateSuggestions (Returns parsed) p (scoreEntries c x m j) =
        Inr (map JStr (fallback_spec c x m j)))"
proof -
  have a: "generateSuggestions reply p (scoreEntries c x m j) = Inr [JStr affirmation]"
    if "7 \<le> c \<and> 7 \<le> x \<and> 7 \<le> m \<and> 7 \<le> j"
    using that lowScoreAreasOf_empty_iff [of c x m j]
    by (simp add: generateSuggestions_def)
  have b: "generateSuggestions (Returns parsed) p (scoreEntries c x m j) =
        Inr (map JStr (fallback_spec c x m j))"
    if weak: "\<not> (7 \<le> c \<and> 7 \<le> x \<and> 7 \<le> m \<and> 7 \<le> j)"
      and shape: "\<forall>xs. parsed \<noteq> JArr xs"
  proof -
    have ne: "lowScoreAreasOf (scoreEntries c x m j) \<noteq> []"
      using weak lowScoreAreasOf_empty_iff [of c x m j] by blast
    show ?thesis
      using ne shape getFallbackSuggestions_entries [of c x m j]
      by (cases parsed) (simp_all add: generateSuggestions_def Let_def)
  qed
  show ?thesis
    using a b getFallbackSuggestions_entries [of c x m j] fallback_spec_distinct [of c x m j]
    by simp
qed

text \<open>
  Sub-scores 8, 8, 8, 8 give the affirmation even when the client would throw;
  sub-scores 5, 8, 6, 0 with a reply that parses to an object give the suggestions for
  clarity, completeness and ticket link, in this order.
\<close>

theorem suggestions_affirmation_or_fallback_witness:
  "generateSuggestions Throws minimalPr (scoreEntries 8 8 8 8) = Inr [JStr affirmation] \<and>
   fallback_spec 5 8 6 0 =
     [''Consider adding more descriptive title and detailed description'',
      ''Add tests and update documentation if needed'',
      ''Link this PR to the relevant Jira ticket''] \<and>
   generateSuggestions (Returns (JObj [])) minimalPr (scoreEntries 5 8 6 0) =
     Inr (map JStr (fallback_spec 5 8 6 0))"
proof -
  have fs: "fallback_spec 5 8 6 0 =
     [''Consider adding more descriptive title and detailed description'',
      ''Add tests and update documentation if needed'',
      ''Link this PR to the relevant Jira ticket'']"
    by (simp add: fallback_spec_def suggestionIfWeak_def)
  have good: "generateSuggestions Throws minimalPr (scoreEntries 8 8 8 8) = Inr [JStr affirmation]"
    using suggestions_affirmation_or_fallback
      [where c = 8 and x = 8 and m = 8 and j = 8 and reply = Throws and p = minimalPr]
    by simp
  have weak: "generateSuggestions (Returns (JObj [])) minimalPr (scoreEntries 5 8 6 0) =
     Inr (map JStr (fallback_spec 5 8 6 0))"
    using suggestions_affirmation_or_fallback
      [where c = 5 and x = 8 and m = 6 and j = 0 and parsed = "JObj []" and p = minimalPr]
    by simp
  from good fs weak show ?thesis by blast
qed

subsection \<open>Monotonicity of the rating\<close>

lemma getRating_mono_any:
  "js_lt t1 t2 \<Longrightarrow> bandRank (getRating eng t1) \<le> bandRank (getRating eng t2)"
  using js_ge_upward [of t1 t2] by (auto simp: getRating_def)

text \<open>
  Claim C9. When the thresholds are ascending, a larger total never gets a lower band:
  for \<open>t1 < t2\<close> the band of \<open>t1\<close> is at most the band of \<open>t2\<close> in the order
  poor < needs-improvement < good < excellent. The totals are any two numbers of the
  engine, finite or infinite; for finite ones \<open>js_lt (Finite a) (Finite b)\<close> is
  \<open>a < b\<close>. (By \<open>getRating_mono_any\<close> the chain of comparisons is monotonic for
  any thresholds.)
\<close>

theorem rating_monotonic:
  assumes "thresholdsAscending eng" and "js_lt t1 t2"
  shows "bandRank (getRating eng t1) \<le> bandRank (getRating eng t2)"
  using assms(2) by (rule getRating_mono_any)

theorem rating_monotonic_witness:
  "thresholdsAscending sampleEngine \<and> js_lt (Finite (49 / 10)) (Finite (71 / 10)) \<and>
   getRating sampleEngine (Finite (49 / 10)) = Poor \<and>
   getRating sampleEngine (Finite (71 / 10)) = Good \<and>
   bandRank (getRating sampleEngine (Finite (49 / 10)))
     \<le> bandRank (getRating sampleEngine (Finite (71 / 10)))"
proof -
  have a: "thresholdsAscending sampleEngine"
    by (simp add: thresholdsAscending_def toDouble_17_2 toDouble_7 toDouble_5)
  have b: "js_lt (Finite (49 / 10)) (Finite (71 / 10))" by simp
  have c: "getRating sampleEngine (Finite (49 / 10)) = Poor"
    by (simp only: sample_thresholds) simp
  have d: "getRating sampleEngine (Finite (71 / 10)) = Good"
    by (simp only: sample_thresholds) simp
  from rating_monotonic [OF a b] a b c d show ?thesis by blast
qed

subsection \<open>The ticket-link score\<close>

text \<open>
  Claim C10. With a ticket context the ticket-link sub-score is at least 5 (and at most
  10); without one it is 0. So every ticket-link sub-score is 0 or lies in [5,10]:
  no value strictly between 0 and 5 is reached.
\<close>

theorem ticketLink_zero_or_at_least_five:
  "analyzeJiraLinkScore None = 0 \<and>
   (5 \<le> analyzeJiraLinkScore (Some j) \<and> analyzeJiraLinkScore (Some j) \<le> 10) \<and>
   (analyzeJiraLinkScore jc = 0 \<or>
    (5 \<le> analyzeJiraLinkScore jc \<and> analyzeJiraLinkScore jc \<le> 10))"
proof -
  have "analyzeJiraLinkScore jc = 0 \<or>
        (5 \<le> analyzeJiraLinkScore jc \<and> analyzeJiraLinkScore jc \<le> 10)"
  proof (cases jc)
    case None
    then show ?thesis by (simp add: analyzeJiraLinkScore_None)
  next
    case (Some k)
    then show ?thesis using analyzeJiraLinkScore_Some [of k] by simp
  qed
  then show ?thesis
    using analyzeJiraLinkScore_None analyzeJiraLinkScore_Some [of j] by simp
qed

text \<open>The two ends of the range are reached: an empty ticket context scores 5, a full one 10.\<close>

theorem ticketLink_zero_or_at_least_five_witness:
  "analyzeJiraLinkScore None = 0 \<and>
   analyzeJiraLinkScore
     (Some \<lparr>ticketId = None, ticketStatus = None, ticketType = None, priority = None\<rparr>) = 5 \<and>
   analyzeJiraLinkScore (jiraContext loginPr) = 10"
proof -
  have a: "analyzeJiraLinkScore
     (Some \<lparr>ticketId = None, ticketStatus = None, ticketType = None, priority = None\<rparr>) = 5"
    by (simp add: analyzeJiraLinkScore_def truthy_def)
  have b: "analyzeJiraLinkScore (jiraContext loginPr) = 10"
    by (simp add: loginPr_jiraLink)
  from ticketLink_zero_or_at_least_five
    [of "\<lparr>ticketId = None, ticketStatus = None, ticketType = None, priority = None\<rparr>" None]
  show ?thesis using a b by simp
qed

end
